theory Spec2Isabelle
  imports Main
begin

section \<open>The calendar import of Errands: \<open>TaskLists._add_actions._import._confirm\<close>\<close>

text \<open>
  The development embeds the import callback of
  \<^verbatim>\<open>errands/widgets/task_lists/task_lists.py\<close> (lines 46 to 113). The callback reads
  an \<^verbatim>\<open>.ics\<close> file, parses it with the \<^verbatim>\<open>icalendar\<close> library, chooses a list name,
  creates the list and adds one task per \<^verbatim>\<open>VTODO\<close> component, then refreshes the UI,
  shows a toast and starts a synchronisation.
\<close>

subsection \<open>Python values and exceptions\<close>

text \<open>
  The exceptions the callback can raise. \<open>ParseError\<close> is the \<^verbatim>\<open>ValueError\<close> of
  \<^verbatim>\<open>Calendar.from_ical\<close>; \<open>ValueError\<close> and \<open>TypeError\<close> are those of \<^verbatim>\<open>int(...)\<close>;
  \<open>AttributeError\<close> is a missing \<^verbatim>\<open>.cats\<close> or \<^verbatim>\<open>.to_ical\<close>; \<open>StoreError\<close> is a failure
  of \<^verbatim>\<open>UserData\<close>.
\<close>

datatype error = ParseError | ValueError | TypeError | AttributeError | StoreError

text \<open>An exception leaves the computation at once: the rest runs only on a value.\<close>

definition then_do :: "error + 'a \<Rightarrow> ('a \<Rightarrow> error + 'b) \<Rightarrow> error + 'b" where
  "then_do m f = (case m of Inl e \<Rightarrow> Inl e | Inr x \<Rightarrow> f x)"

text \<open>
  The values a component of the library holds under a property name, and the defaults
  the callback passes to \<^verbatim>\<open>get\<close>:
  \<^item> \<open>vText s\<close>: a text value. The library's \<^verbatim>\<open>vText\<close> is a subclass of \<^verbatim>\<open>str\<close>, so the
    default \<^verbatim>\<open>""\<close> is \<open>vText []\<close>;
  \<^item> \<open>vInt n\<close>: an integer value. \<^verbatim>\<open>vInt\<close> is a subclass of \<^verbatim>\<open>int\<close>, so the default
    \<^verbatim>\<open>0\<close> is \<open>vInt 0\<close>;
  \<^item> \<open>vDDDTypes r\<close>: a date, date-time or duration, kept as the text \<open>r\<close> that its
    \<^verbatim>\<open>to_ical()\<close> renders (such as \<^verbatim>\<open>20231012T120000Z\<close>);
  \<^item> \<open>vCategory cs\<close>: a \<^verbatim>\<open>CATEGORIES\<close> value whose attribute \<^verbatim>\<open>cats\<close> holds the texts \<open>cs\<close>;
  \<^item> \<open>PyList vs\<close>: the list the library stores when a property occurs several times;
  \<^item> \<open>PyNone\<close>: \<^verbatim>\<open>None\<close>.
\<close>

datatype pyval =
    vText string
  | vInt int
  | vDDDTypes string
  | vCategory "string list"
  | PyList "pyval list"
  | PyNone

type_synonym component = "string \<rightharpoonup> pyval"

text \<open>\<^verbatim>\<open>component.get(key, default)\<close>.\<close>

definition get :: "component \<Rightarrow> string \<Rightarrow> pyval \<Rightarrow> pyval" where
  "get c k d = (case c k of None \<Rightarrow> d | Some v \<Rightarrow> v)"

text \<open>
  A parsed calendar: its \<^verbatim>\<open>X-WR-CALNAME\<close> property (a text, when the document declares
  one) and the components that \<^verbatim>\<open>calendar.walk("VTODO")\<close> yields, in document order.
\<close>

record calendar =
  x_wr_calname :: "string option"
  vtodos :: "component list"

text \<open>
  What the callback uses of Python and of the \<^verbatim>\<open>icalendar\<close> library without the
  repository defining it:
  \<^item> \<open>from_ical\<close>: \<^verbatim>\<open>Calendar.from_ical\<close>, \<open>None\<close> when it raises on a malformed document;
  \<^item> \<open>vtext_to_ical\<close>: \<^verbatim>\<open>vText.to_ical().decode("utf-8")\<close>, the escaped text;
  \<^item> \<open>obj_str\<close>: \<^verbatim>\<open>str(v)\<close> for a value that is not a text;
  \<^item> \<open>int_of_str\<close>: \<^verbatim>\<open>int(s)\<close> for a text, \<open>None\<close> when it raises \<^verbatim>\<open>ValueError\<close>.
\<close>

record pylib =
  from_ical :: "string \<Rightarrow> calendar option"
  vtext_to_ical :: "string \<Rightarrow> string"
  obj_str :: "pyval \<Rightarrow> string"
  int_of_str :: "string \<Rightarrow> int option"

text \<open>\<^verbatim>\<open>str(v)\<close>.\<close>

definition py_str :: "pylib \<Rightarrow> pyval \<Rightarrow> string" where
  "py_str lib v = (case v of vText s \<Rightarrow> s | _ \<Rightarrow> obj_str lib v)"

text \<open>\<^verbatim>\<open>int(v)\<close>: an integer is itself, a text is parsed, anything else is a type error.\<close>

definition py_int :: "pylib \<Rightarrow> pyval \<Rightarrow> error + int" where
  "py_int lib v =
     (case v of
        vInt n \<Rightarrow> Inr n
      | vText s \<Rightarrow> (case int_of_str lib s of None \<Rightarrow> Inl ValueError | Some n \<Rightarrow> Inr n)
      | _ \<Rightarrow> Inl TypeError)"

text \<open>\<^verbatim>\<open>sep.join(xs)\<close>.\<close>

fun join :: "string \<Rightarrow> string list \<Rightarrow> string" where
  "join sep [] = []"
| "join sep [x] = x"
| "join sep (x # y # ys) = x @ sep @ join sep (y # ys)"

text \<open>\<^verbatim>\<open>s.rstrip(chars)\<close> and \<^verbatim>\<open>s.strip(chars)\<close>: \<open>chars\<close> is a set of characters, not a suffix.\<close>

definition rstrip :: "string \<Rightarrow> string \<Rightarrow> string" where
  "rstrip chars s = rev (dropWhile (\<lambda>c. c \<in> set chars) (rev s))"

definition strip :: "string \<Rightarrow> string \<Rightarrow> string" where
  "strip chars s = rstrip chars (dropWhile (\<lambda>c. c \<in> set chars) s)"

text \<open>\<^verbatim>\<open>s.replace(old, new)\<close>, for a non-empty \<open>old\<close>: every occurrence from left to right.\<close>

function replace :: "string \<Rightarrow> string \<Rightarrow> string \<Rightarrow> string" where
  "replace old new [] = []"
| "replace old new (c # cs) =
     (if old \<noteq> [] \<and> take (length old) (c # cs) = old
      then new @ replace old new (drop (length old) (c # cs))
      else c # replace old new cs)"
  by pat_completeness auto
termination
  by (relation "measure (\<lambda>(old, new, s). length s)") auto

text \<open>
  The text escaping of the \<^verbatim>\<open>icalendar\<close> library, which \<^verbatim>\<open>vText.to_ical()\<close> applies
  (\<^verbatim>\<open>escape_char\<close> in \<^verbatim>\<open>icalendar/parser.py\<close>; the library is not part of the repository):
  \<^verbatim>\<open>
  text.replace(r"\N", "\n").replace("\\", "\\\\").replace(";", r"\;")
      .replace(",", r"\,").replace("\r\n", r"\n").replace("\n", r"\n")
  \<close>
  The backslash is \<open>CHR 0x5C\<close>, the line feed \<open>CHR 0x0A\<close>, the carriage return
  \<open>CHR 0x0D\<close>.
\<close>

definition escape_char :: "string \<Rightarrow> string" where
  "escape_char txt =
     replace [CHR 0x0A] [CHR 0x5C, CHR ''n'']
    (replace [CHR 0x0D, CHR 0x0A] [CHR 0x5C, CHR ''n'']
    (replace '','' [CHR 0x5C, CHR '','']
    (replace '';'' [CHR 0x5C, CHR '';'']
    (replace [CHR 0x5C] [CHR 0x5C, CHR 0x5C]
    (replace [CHR 0x5C, CHR ''N''] [CHR 0x0A] txt)))))"

text \<open>The decimal text of an integer, \<^verbatim>\<open>str(n)\<close>.\<close>

fun str_nat :: "nat \<Rightarrow> string" where
  "str_nat n =
     (if n < 10 then [char_of (48 + n)]
      else str_nat (n div 10) @ [char_of (48 + n mod 10)])"

definition str_int :: "int \<Rightarrow> string" where
  "str_int i = (if i < 0 then CHR ''-'' # str_nat (nat (- i)) else str_nat (nat i))"

text \<open>
  \<^verbatim>\<open>v.to_ical().decode("utf-8")\<close>. A category value renders its texts separated by
  commas; a list and \<^verbatim>\<open>None\<close> have no such method.
\<close>

definition to_ical :: "pylib \<Rightarrow> pyval \<Rightarrow> error + string" where
  "to_ical lib v =
     (case v of
        vText s \<Rightarrow> Inr (vtext_to_ical lib s)
      | vInt n \<Rightarrow> Inr (str_int n)
      | vDDDTypes r \<Rightarrow> Inr r
      | vCategory cs \<Rightarrow> Inr (join '','' (map (vtext_to_ical lib) cs))
      | PyList vs \<Rightarrow> Inl AttributeError
      | PyNone \<Rightarrow> Inl AttributeError)"

text \<open>The list comprehension \<^verbatim>\<open>[i.to_ical().decode("utf-8") for i in vs]\<close>.\<close>

fun to_icals :: "pylib \<Rightarrow> pyval list \<Rightarrow> error + string list" where
  "to_icals lib [] = Inr []"
| "to_icals lib (v # vs) =
     (case to_ical lib v of
        Inl e \<Rightarrow> Inl e
      | Inr s \<Rightarrow> (case to_icals lib vs of Inl e \<Rightarrow> Inl e | Inr ss \<Rightarrow> Inr (s # ss)))"

subsection \<open>The fields of one task (lines 67 to 110)\<close>

text \<open>
  Lines 68 to 76:
  \<^verbatim>\<open>
  if (tags := todo.get("CATEGORIES", "")) != "":
      tags = ",".join([i.to_ical().decode("utf-8")
                       for i in (tags if isinstance(tags, list) else tags.cats)])
  \<close>
\<close>

definition todo_tags :: "pylib \<Rightarrow> component \<Rightarrow> error + string" where
  "todo_tags lib todo =
     (let tags = get todo ''CATEGORIES'' (vText '''') in
      if tags \<noteq> vText '''' then
        (case (case tags of
                 PyList vs \<Rightarrow> Inr vs
               | vCategory cs \<Rightarrow> Inr (map vText cs)
               | _ \<Rightarrow> Inl AttributeError) of
           Inl e \<Rightarrow> Inl e
         | Inr items \<Rightarrow>
             (case to_icals lib items of Inl e \<Rightarrow> Inl e | Inr ss \<Rightarrow> Inr (join '','' ss)))
      else Inr '''')"

text \<open>
  Lines 78 to 96, the same code for both dates:
  \<^verbatim>\<open>
  if (start := todo.get("DTSTART", "")) != "":
      start = todo.get("DTSTART", "").to_ical().decode("utf-8").strip("Z")
  else:
      start = ""
  \<close>
\<close>

definition ical_date :: "pylib \<Rightarrow> pyval \<Rightarrow> error + string" where
  "ical_date lib v =
     (if v \<noteq> vText '''' then
        (case to_ical lib v of Inl e \<Rightarrow> Inl e | Inr s \<Rightarrow> Inr (strip ''Z'' s))
      else Inr '''')"

definition todo_start :: "pylib \<Rightarrow> component \<Rightarrow> error + string" where
  "todo_start lib todo = ical_date lib (get todo ''DTSTART'' (vText ''''))"

definition todo_end :: "pylib \<Rightarrow> component \<Rightarrow> error + string" where
  "todo_end lib todo = ical_date lib (get todo ''DUE'' (get todo ''DTEND'' (vText '''')))"

text \<open>The keyword arguments of \<^verbatim>\<open>UserData.add_task\<close> (lines 97 to 110).\<close>

record task =
  color :: pyval
  completed :: bool
  end_date :: string
  list_uid :: string
  task_notes :: string
  parent :: string
  percent_complete :: int
  priority :: int
  start_date :: string
  tags :: string
  task_text :: string
  uid :: pyval

text \<open>
  The body of the loop up to the call of \<^verbatim>\<open>add_task\<close>: the tags and the dates first,
  then the arguments in the order they are written, so \<^verbatim>\<open>PERCENT-COMPLETE\<close> is
  converted before \<^verbatim>\<open>PRIORITY\<close>. No statement of the loop catches an exception.
\<close>

definition todo_task :: "pylib \<Rightarrow> string \<Rightarrow> component \<Rightarrow> error + task" where
  "todo_task lib luid todo =
     then_do (todo_tags lib todo) (\<lambda>tgs.
     then_do (todo_start lib todo) (\<lambda>start.
     then_do (todo_end lib todo) (\<lambda>fin.
     then_do (py_int lib (get todo ''PERCENT-COMPLETE'' (vInt 0))) (\<lambda>pc.
     then_do (py_int lib (get todo ''PRIORITY'' (vInt 0))) (\<lambda>pr.
       Inr \<lparr> color = get todo ''X-ERRANDS-COLOR'' (vText ''''),
             completed = (py_str lib (get todo ''STATUS'' (vText '''')) = ''COMPLETED''),
             end_date = fin,
             list_uid = luid,
             task_notes = py_str lib (get todo ''DESCRIPTION'' (vText '''')),
             parent = py_str lib (get todo ''RELATED-TO'' (vText '''')),
             percent_complete = pc,
             priority = pr,
             start_date = start,
             tags = tgs,
             task_text = py_str lib (get todo ''SUMMARY'' (vText '''')),
             uid = get todo ''UID'' PyNone \<rparr>)))))"

subsection \<open>The store, the identifier source and the user interface\<close>

text \<open>
  A row of the table \<^verbatim>\<open>lists\<close>: \<^verbatim>\<open>_load_lists\<close> and \<^verbatim>\<open>update_ui\<close> read the columns
  \<^verbatim>\<open>uid\<close>, \<^verbatim>\<open>name\<close> and \<^verbatim>\<open>deleted\<close>.
\<close>

record list_row =
  l_uid :: string
  l_name :: string
  l_deleted :: bool

text \<open>
  Everything the callback reads or changes: the two tables of \<^verbatim>\<open>UserData\<close>, the number
  of mutations the store still accepts (\<open>None\<close> for a store that never fails), the
  identifiers that the coming calls of \<^verbatim>\<open>uuid4\<close> return, and what reached the log,
  the window and \<^verbatim>\<open>Sync\<close>. Reading the file, refreshing the window and showing the
  toast are taken not to raise.
\<close>

record world =
  db_lists :: "list_row list"
  db_tasks :: "task list"
  db_quota :: "nat option"
  uuid_src :: "nat \<Rightarrow> string"
  uuid_cnt :: nat
  debug_log :: "string list"
  ui_updates :: nat
  toasts :: "string list"
  syncs :: nat

text \<open>\<^verbatim>\<open>str(uuid4())\<close>: the next identifier of the source.\<close>

definition uuid4 :: "world \<Rightarrow> string \<times> world" where
  "uuid4 w = (uuid_src w (uuid_cnt w), w\<lparr>uuid_cnt := Suc (uuid_cnt w)\<rparr>)"

text \<open>\<^verbatim>\<open>[i[0] for i in UserData.run_sql("SELECT name FROM lists", fetch=True)]\<close>: the query
  has no \<^verbatim>\<open>WHERE\<close> clause, so it returns the name of every row.\<close>

definition select_name_from_lists :: "world \<Rightarrow> string list" where
  "select_name_from_lists w = map l_name (db_lists w)"

text \<open>
  Modelled from the spec: the failure of a store mutation. \<^verbatim>\<open>UserData\<close> is not among
  the sources; the spec names \<^emph>\<open>StoreError\<close>, a \<^emph>\<open>collaborator failure applying a
  mutation\<close> after which \<^emph>\<open>already-applied mutations remain committed\<close>. The field
  \<open>db_quota\<close> says how many mutations the store still accepts; an accepted one is
  counted here.
\<close>

definition store_spend :: "world \<Rightarrow> world" where
  "store_spend w = w\<lparr>db_quota := map_option (\<lambda>k. k - 1) (db_quota w)\<rparr>"

text \<open>
  Modelled from the spec: \<^verbatim>\<open>UserData.add_list(name)\<close>, which is not among the sources.
  The spec gives the store \<^emph>\<open>create list(name) -> uid\<close> and
  \<^emph>\<open>generate unique id() -> string\<close>: a refused mutation changes nothing; an accepted
  one appends a row with a new identifier, the name and \<open>deleted\<close> unset, and returns
  the identifier.
\<close>

definition add_list :: "string \<Rightarrow> world \<Rightarrow> (error + string) \<times> world" where
  "add_list nm w =
     (if db_quota w = Some 0 then (Inl StoreError, w)
      else
        (let (u, w1) = uuid4 w;
             row = \<lparr> l_uid = u, l_name = nm, l_deleted = False \<rparr>
         in (Inr u, store_spend (w1\<lparr>db_lists := db_lists w1 @ [row]\<rparr>))))"

text \<open>
  Modelled from the spec: \<^verbatim>\<open>UserData.add_task(...)\<close>, which is not among the sources.
  The spec gives the store \<^emph>\<open>create task(fields) -> uid\<close>; the task's identifier is
  \<^emph>\<open>generated if absent from source\<close> (\<^emph>\<open>if uid is empty, generate a new unique
  identifier\<close>) and is the \<^emph>\<open>pass through\<close> of the source's otherwise. The other
  fields are stored as they are given.
\<close>

definition add_task :: "task \<Rightarrow> world \<Rightarrow> (error + pyval) \<times> world" where
  "add_task t w =
     (if db_quota w = Some 0 then (Inl StoreError, w)
      else if uid t = PyNone \<or> uid t = vText '''' then
        (let (u, w1) = uuid4 w;
             row = t\<lparr>uid := vText u\<rparr>
         in (Inr (vText u), store_spend (w1\<lparr>db_tasks := db_tasks w1 @ [row]\<rparr>)))
      else (Inr (uid t), store_spend (w\<lparr>db_tasks := db_tasks w @ [t]\<rparr>)))"

subsection \<open>The callback (lines 46 to 113)\<close>

text \<open>The file the dialog returns: its base name and what \<^verbatim>\<open>f.read()\<close> gives.\<close>

record gfile =
  basename :: string
  contents :: string

text \<open>Lines 55 to 57:
  \<^verbatim>\<open>name = calendar.get("X-WR-CALNAME", file.get_basename().rstrip(".ics"))\<close>\<close>

definition list_name :: "calendar \<Rightarrow> gfile \<Rightarrow> string" where
  "list_name cal file =
     (case x_wr_calname cal of
        None \<Rightarrow> rstrip ''.ics'' (basename file)
      | Some n \<Rightarrow> n)"

text \<open>
  Lines 58 to 62:
  \<^verbatim>\<open>
  if name in [i[0] for i in UserData.run_sql("SELECT name FROM lists", fetch=True)]:
      name = f"{name}_{uuid4()}"
  \<close>
\<close>

definition unique_name :: "string \<Rightarrow> world \<Rightarrow> string \<times> world" where
  "unique_name nm w =
     (if nm \<in> set (select_name_from_lists w) then
        (let (u, w1) = uuid4 w in (nm @ ''_'' @ u, w1))
      else (nm, w))"

text \<open>Lines 66 to 110: one \<^verbatim>\<open>add_task\<close> per component; the first exception ends the loop
  and leaves the store as it is at that moment.\<close>

fun add_todos :: "pylib \<Rightarrow> string \<Rightarrow> component list \<Rightarrow> world \<Rightarrow> error option \<times> world" where
  "add_todos lib luid [] w = (None, w)"
| "add_todos lib luid (todo # todos) w =
     (case todo_task lib luid todo of
        Inl e \<Rightarrow> (Some e, w)
      | Inr t \<Rightarrow>
          (case add_task t w of
             (Inl e, w1) \<Rightarrow> (Some e, w1)
           | (Inr u, w1) \<Rightarrow> add_todos lib luid todos w1))"

text \<open>\<^verbatim>\<open>self.update_ui()\<close>, \<^verbatim>\<open>self.window.add_toast(_("Imported"))\<close>, \<^verbatim>\<open>Sync.sync()\<close>.\<close>

definition finish :: "world \<Rightarrow> world" where
  "finish w = w\<lparr>ui_updates := Suc (ui_updates w),
               toasts := toasts w @ [''Imported''],
               syncs := Suc (syncs w)\<rparr>"

text \<open>
  The callback. Its argument is the result of \<^verbatim>\<open>dialog.open_finish(res)\<close>: \<open>None\<close> when
  that raises (the dialog was dismissed), the chosen file otherwise. The result is
  the exception that left the callback, if any, and the world after it.
\<close>

definition confirm :: "pylib \<Rightarrow> gfile option \<Rightarrow> world \<Rightarrow> error option \<times> world" where
  "confirm lib res w =
     (case res of
        None \<Rightarrow> (None, w\<lparr>debug_log := debug_log w @ [''Lists: Import cancelled'']\<rparr>)
      | Some file \<Rightarrow>
          (case from_ical lib (contents file) of
             None \<Rightarrow> (Some ParseError, w)
           | Some cal \<Rightarrow>
               (let (nm, w1) = unique_name (list_name cal file) w in
                case add_list nm w1 of
                  (Inl e, w2) \<Rightarrow> (Some e, w2)
                | (Inr luid, w2) \<Rightarrow>
                    (case add_todos lib luid (vtodos cal) w2 of
                       (Some e, w3) \<Rightarrow> (Some e, w3)
                     | (None, w3) \<Rightarrow> (None, finish w3)))))"

subsection \<open>Sample inputs\<close>

text \<open>
  A stand-in for the library on texts that need no escaping: \<open>from_ical\<close> gives the
  stated parse result, \<open>vtext_to_ical\<close> leaves the text as it is, \<open>int_of_str\<close> reads a
  non-empty run of decimal digits and rejects everything else (\<^verbatim>\<open>int\<close> also reads a
  sign, surrounding blanks and underscores between digits; the samples apply it to a
  text of letters only).
\<close>

definition sample_int_of_str :: "string \<Rightarrow> int option" where
  "sample_int_of_str s =
     (if s \<noteq> [] \<and> list_all (\<lambda>c. c \<in> set ''0123456789'') s
      then Some (int (foldl (\<lambda>a c. 10 * a + (of_char c - 48)) 0 s))
      else None)"

definition sample_lib :: "calendar option \<Rightarrow> pylib" where
  "sample_lib parsed =
     \<lparr> from_ical = (\<lambda>txt. parsed),
       vtext_to_ical = (\<lambda>s. s),
       obj_str = (\<lambda>v. ''<object>''),
       int_of_str = sample_int_of_str \<rparr>"

text \<open>The same stand-in with the library's escaping for \<open>vtext_to_ical\<close>.\<close>

definition escaping_lib :: "calendar option \<Rightarrow> pylib" where
  "escaping_lib parsed = (sample_lib parsed)\<lparr>vtext_to_ical := escape_char\<rparr>"

text \<open>
  A world with the given rows of \<^verbatim>\<open>lists\<close>, no task, the given store quota and the given
  identifiers to come (decimal numbers after them); nothing logged, shown or synchronised.
\<close>

definition sample_world :: "list_row list \<Rightarrow> nat option \<Rightarrow> string list \<Rightarrow> world" where
  "sample_world rows quota us =
     \<lparr> db_lists = rows, db_tasks = [], db_quota = quota,
       uuid_src = (\<lambda>n. if n < length us then us ! n else str_nat n), uuid_cnt = 0,
       debug_log = [], ui_updates = 0, toasts = [], syncs = 0 \<rparr>"

section \<open>Properties of the import\<close>

subsection \<open>Evaluation and auxiliary facts\<close>

lemmas import_defs =
  confirm_def finish_def add_task_def add_list_def store_spend_def uuid4_def
  unique_name_def list_name_def select_name_from_lists_def rstrip_def strip_def
  todo_task_def then_do_def todo_tags_def todo_start_def todo_end_def ical_date_def
  to_ical_def get_def py_int_def py_str_def sample_lib_def sample_world_def
  sample_int_of_str_def

lemma then_do_Inr: "then_do m f = Inr y \<longleftrightarrow> (\<exists>x. m = Inr x \<and> f x = Inr y)"
  by (cases m) (simp_all add: then_do_def)

lemma todo_task_Inr:
  assumes "todo_task lib luid todo = Inr t"
  obtains tgs start fin pc pr where
    "todo_tags lib todo = Inr tgs"
    "todo_start lib todo = Inr start"
    "todo_end lib todo = Inr fin"
    "py_int lib (get todo ''PERCENT-COMPLETE'' (vInt 0)) = Inr pc"
    "py_int lib (get todo ''PRIORITY'' (vInt 0)) = Inr pr"
    "t = \<lparr> color = get todo ''X-ERRANDS-COLOR'' (vText ''''),
           completed = (py_str lib (get todo ''STATUS'' (vText '''')) = ''COMPLETED''),
           end_date = fin,
           list_uid = luid,
           task_notes = py_str lib (get todo ''DESCRIPTION'' (vText '''')),
           parent = py_str lib (get todo ''RELATED-TO'' (vText '''')),
           percent_complete = pc,
           priority = pr,
           start_date = start,
           tags = tgs,
           task_text = py_str lib (get todo ''SUMMARY'' (vText '''')),
           uid = get todo ''UID'' PyNone \<rparr>"
proof -
  from assms obtain tgs start fin pc pr where
    h: "todo_tags lib todo = Inr tgs" "todo_start lib todo = Inr start"
      "todo_end lib todo = Inr fin"
      "py_int lib (get todo ''PERCENT-COMPLETE'' (vInt 0)) = Inr pc"
      "py_int lib (get todo ''PRIORITY'' (vInt 0)) = Inr pr"
    and t: "Inr \<lparr> color = get todo ''X-ERRANDS-COLOR'' (vText ''''),
           completed = (py_str lib (get todo ''STATUS'' (vText '''')) = ''COMPLETED''),
           end_date = fin,
           list_uid = luid,
           task_notes = py_str lib (get todo ''DESCRIPTION'' (vText '''')),
           parent = py_str lib (get todo ''RELATED-TO'' (vText '''')),
           percent_complete = pc,
           priority = pr,
           start_date = start,
           tags = tgs,
           task_text = py_str lib (get todo ''SUMMARY'' (vText '''')),
           uid = get todo ''UID'' PyNone \<rparr> = (Inr t :: error + task)"
    unfolding todo_task_def then_do_Inr by blast
  from t have "t = \<lparr> color = get todo ''X-ERRANDS-COLOR'' (vText ''''),
           completed = (py_str lib (get todo ''STATUS'' (vText '''')) = ''COMPLETED''),
           end_date = fin,
           list_uid = luid,
           task_notes = py_str lib (get todo ''DESCRIPTION'' (vText '''')),
           parent = py_str lib (get todo ''RELATED-TO'' (vText '''')),
           percent_complete = pc,
           priority = pr,
           start_date = start,
           tags = tgs,
           task_text = py_str lib (get todo ''SUMMARY'' (vText '''')),
           uid = get todo ''UID'' PyNone \<rparr>"
    by (simp only: sum.inject)
  with h show thesis by (rule that)
qed

lemma py_int_get:
  "py_int lib (get todo k (vInt 0)) = Inr n \<Longrightarrow>
     (todo k = None \<longrightarrow> n = 0) \<and>
     (\<forall>m. todo k = Some (vInt m) \<longrightarrow> n = m) \<and>
     (\<forall>s. todo k = Some (vText s) \<longrightarrow> int_of_str lib s = Some n)"
  by (auto simp: py_int_def get_def split: option.splits)

lemma py_int_get_raises:
  "todo k = Some (vText s) \<Longrightarrow> int_of_str lib s = None \<Longrightarrow>
     py_int lib (get todo k (vInt 0)) = Inl ValueError"
  by (simp add: py_int_def get_def)

lemma todo_task_raises_percent:
  "isl (py_int lib (get todo ''PERCENT-COMPLETE'' (vInt 0))) \<Longrightarrow> isl (todo_task lib luid todo)"
  unfolding todo_task_def
  by (cases "todo_tags lib todo"; cases "todo_start lib todo"; cases "todo_end lib todo";
      cases "py_int lib (get todo ''PERCENT-COMPLETE'' (vInt 0))") (simp_all add: then_do_def)

lemma todo_task_raises_priority:
  "isl (py_int lib (get todo ''PRIORITY'' (vInt 0))) \<Longrightarrow> isl (todo_task lib luid todo)"
  unfolding todo_task_def
  by (cases "todo_tags lib todo"; cases "todo_start lib todo"; cases "todo_end lib todo";
      cases "py_int lib (get todo ''PERCENT-COMPLETE'' (vInt 0))";
      cases "py_int lib (get todo ''PRIORITY'' (vInt 0))") (simp_all add: then_do_def)

lemma unique_name_keeps:
  "unique_name nm w = (nm', w1) \<Longrightarrow>
     db_lists w1 = db_lists w \<and> db_tasks w1 = db_tasks w \<and> db_quota w1 = db_quota w \<and>
     syncs w1 = syncs w"
  by (auto simp: unique_name_def uuid4_def split: if_splits)

lemma add_list_Inr:
  "add_list nm w = (Inr u, w1) \<Longrightarrow>
     db_lists w1 = db_lists w @ [\<lparr> l_uid = u, l_name = nm, l_deleted = False \<rparr>] \<and>
     db_tasks w1 = db_tasks w \<and> syncs w1 = syncs w \<and>
     db_quota w \<noteq> Some 0 \<and> db_quota w1 = map_option (\<lambda>k. k - 1) (db_quota w)"
  by (auto simp: add_list_def uuid4_def store_spend_def split: if_splits)

lemma add_list_Inl:
  "add_list nm w = (Inl e, w1) \<Longrightarrow> w1 = w \<and> e = StoreError \<and> db_quota w = Some 0"
  by (auto simp: add_list_def uuid4_def store_spend_def split: if_splits)

lemma add_task_Inr:
  "add_task t w = (Inr u, w1) \<Longrightarrow>
     (\<exists>row. db_tasks w1 = db_tasks w @ [row] \<and> row\<lparr>uid := uid t\<rparr> = t \<and>
        (uid t \<noteq> PyNone \<longrightarrow> uid t \<noteq> vText [] \<longrightarrow> row = t)) \<and>
     db_lists w1 = db_lists w \<and> syncs w1 = syncs w \<and>
     db_quota w \<noteq> Some 0 \<and> db_quota w1 = map_option (\<lambda>k. k - 1) (db_quota w)"
  by (auto simp: add_task_def uuid4_def store_spend_def split: if_splits)

lemma add_task_Inl:
  "add_task t w = (Inl e, w1) \<Longrightarrow> w1 = w \<and> e = StoreError \<and> db_quota w = Some 0"
  by (auto simp: add_task_def uuid4_def store_spend_def split: if_splits)



lemma add_todos_keeps:
  "add_todos lib luid ts w = (r, w') \<Longrightarrow> db_lists w' = db_lists w \<and> syncs w' = syncs w"
proof (induction ts arbitrary: w)
  case Nil
  then show ?case by simp
next
  case (Cons todo ts)
  show ?case
  proof (cases "todo_task lib luid todo")
    case (Inl e)
    with Cons.prems show ?thesis by simp
  next
    case (Inr t)
    obtain x w1 where a: "add_task t w = (x, w1)" by (cases "add_task t w")
    show ?thesis
    proof (cases x)
      case (Inl e)
      with a Inr Cons.prems add_task_Inl [of t w e w1] show ?thesis by simp
    next
      case (Inr u)
      with a \<open>todo_task lib luid todo = Inr t\<close> Cons.prems
      have "add_todos lib luid ts w1 = (r, w')" by simp
      from Cons.IH [OF this] add_task_Inr [of t w u w1] a Inr show ?thesis by simp
    qed
  qed
qed

lemma add_todos_rows:
  "add_todos lib luid ts w = (None, w') \<Longrightarrow>
     \<exists>rows. db_tasks w' = db_tasks w @ rows \<and>
       list_all2 (\<lambda>todo row. \<exists>t. todo_task lib luid todo = Inr t \<and> row\<lparr>uid := uid t\<rparr> = t \<and>
                     (uid t \<noteq> PyNone \<longrightarrow> uid t \<noteq> vText [] \<longrightarrow> row = t)) ts rows"
proof (induction ts arbitrary: w)
  case Nil
  then show ?case by simp
next
  case (Cons todo ts)
  show ?case
  proof (cases "todo_task lib luid todo")
    case (Inl e)
    with Cons.prems show ?thesis by simp
  next
    case (Inr t)
    obtain x w1 where a: "add_task t w = (x, w1)" by (cases "add_task t w")
    show ?thesis
    proof (cases x)
      case (Inl e)
      with a Inr Cons.prems show ?thesis by simp
    next
      case (Inr u)
      with a \<open>todo_task lib luid todo = Inr t\<close> Cons.prems
      have rest: "add_todos lib luid ts w1 = (None, w')" by simp
      from add_task_Inr [of t w u w1] a Inr obtain row where
        row: "db_tasks w1 = db_tasks w @ [row]" "row\<lparr>uid := uid t\<rparr> = t"
          "uid t \<noteq> PyNone \<longrightarrow> uid t \<noteq> vText [] \<longrightarrow> row = t"
        by blast
      from Cons.IH [OF rest] obtain rows where
        rows: "db_tasks w' = db_tasks w1 @ rows"
          "list_all2 (\<lambda>todo row. \<exists>t. todo_task lib luid todo = Inr t \<and> row\<lparr>uid := uid t\<rparr> = t \<and>
                     (uid t \<noteq> PyNone \<longrightarrow> uid t \<noteq> vText [] \<longrightarrow> row = t)) ts rows"
        by blast
      have "db_tasks w' = db_tasks w @ (row # rows)"
        using row(1) rows(1) by simp
      moreover have
        "list_all2 (\<lambda>todo row. \<exists>t. todo_task lib luid todo = Inr t \<and> row\<lparr>uid := uid t\<rparr> = t \<and>
                     (uid t \<noteq> PyNone \<longrightarrow> uid t \<noteq> vText [] \<longrightarrow> row = t)) (todo # ts) (row # rows)"
        using row(2,3) rows(2) \<open>todo_task lib luid todo = Inr t\<close> by simp
      ultimately show ?thesis by blast
    qed
  qed
qed

lemma confirm_parsed:
  assumes "from_ical lib (contents file) = Some cal"
  obtains nm w1 x w2 where
    "unique_name (list_name cal file) w = (nm, w1)"
    "add_list nm w1 = (x, w2)"
    "confirm lib (Some file) w =
       (case x of
          Inl e \<Rightarrow> (Some e, w2)
        | Inr luid \<Rightarrow>
            (case add_todos lib luid (vtodos cal) w2 of
               (Some e, w3) \<Rightarrow> (Some e, w3)
             | (None, w3) \<Rightarrow> (None, finish w3)))"
proof -
  obtain nm w1 where u: "unique_name (list_name cal file) w = (nm, w1)"
    by (cases "unique_name (list_name cal file) w")
  obtain x w2 where a: "add_list nm w1 = (x, w2)" by (cases "add_list nm w1")
  show thesis
    by (rule that [OF u a]) (simp add: confirm_def assms u a split: sum.splits)
qed

lemma parent_of_row: "row\<lparr>uid := x\<rparr> = t \<Longrightarrow> parent row = parent t"
  by (cases row) auto




lemma strip_Z_trailing:
  "take 1 r \<noteq> ''Z'' \<Longrightarrow> strip ''Z'' r = rev (dropWhile (\<lambda>c. c = CHR ''Z'') (rev r))"
  by (cases r) (simp_all add: strip_def rstrip_def)

lemma ical_date_simps:
  "ical_date lib (vText []) = Inr []"
  "ical_date lib (vDDDTypes r) = Inr (strip ''Z'' r)"
  by (simp_all add: ical_date_def to_ical_def)

lemma replace_absent:
  "\<exists>x \<in> set old. x \<notin> set s \<Longrightarrow> replace old new s = s"
proof (induction s)
  case Nil
  then show ?case by simp
next
  case (Cons c cs)
  have "take (length old) (c # cs) \<noteq> old"
  proof
    assume "take (length old) (c # cs) = old"
    then have "set old \<subseteq> set (c # cs)" by (metis set_take_subset)
    with Cons.prems show False by blast
  qed
  moreover from Cons.prems have "\<exists>x \<in> set old. x \<notin> set cs" by auto
  ultimately show ?case using Cons.IH by simp
qed

lemma escape_char_plain:
  assumes "CHR 0x5C \<notin> set s" and "CHR '';'' \<notin> set s" and "CHR '','' \<notin> set s"
    and "CHR 0x0A \<notin> set s"
  shows "escape_char s = s"
  using assms by (simp add: escape_char_def replace_absent)

lemma to_icals_texts: "to_icals lib (map vText cs) = Inr (map (vtext_to_ical lib) cs)"
  by (induction cs) (simp_all add: to_ical_def)

lemma to_icals_categories:
  "to_icals lib (map vCategory css) =
     Inr (map (\<lambda>cs. join '','' (map (vtext_to_ical lib) cs)) css)"
  by (induction css) (simp_all add: to_ical_def)

lemma todo_tags_simps:
  "todo ''CATEGORIES'' = None \<Longrightarrow> todo_tags lib todo = Inr []"
  "todo ''CATEGORIES'' = Some (vCategory cs) \<Longrightarrow>
     todo_tags lib todo = Inr (join '','' (map (vtext_to_ical lib) cs))"
  "todo ''CATEGORIES'' = Some (PyList (map vCategory css)) \<Longrightarrow>
     todo_tags lib todo =
       Inr (join '','' (map (\<lambda>cs. join '','' (map (vtext_to_ical lib) cs)) css))"
  by (simp_all add: todo_tags_def get_def to_icals_texts to_icals_categories)

subsection \<open>Numeric fields\<close>

text \<open>
  Claim C1, as the code has it. For every component, the task's \<open>priority\<close> and
  \<open>percent_complete\<close> are \<open>0\<close> when the property is absent and the property's integer
  when it holds one, negative values included: nothing clamps them. A text value goes
  through \<^verbatim>\<open>int(...)\<close>, and when \<^verbatim>\<open>int\<close> rejects it the exception leaves the loop body:
  no default replaces it and no task is built for that component.
\<close>

theorem numeric_fields_as_converted:
  "(todo_task lib luid todo = Inr t \<longrightarrow>
      (todo ''PRIORITY'' = None \<longrightarrow> priority t = 0) \<and>
      (\<forall>n. todo ''PRIORITY'' = Some (vInt n) \<longrightarrow> priority t = n) \<and>
      (\<forall>s. todo ''PRIORITY'' = Some (vText s) \<longrightarrow> int_of_str lib s = Some (priority t)) \<and>
      (todo ''PERCENT-COMPLETE'' = None \<longrightarrow> percent_complete t = 0) \<and>
      (\<forall>n. todo ''PERCENT-COMPLETE'' = Some (vInt n) \<longrightarrow> percent_complete t = n) \<and>
      (\<forall>s. todo ''PERCENT-COMPLETE'' = Some (vText s) \<longrightarrow>
           int_of_str lib s = Some (percent_complete t))) \<and>
   ((\<exists>s. (todo ''PRIORITY'' = Some (vText s) \<or> todo ''PERCENT-COMPLETE'' = Some (vText s)) \<and>
         int_of_str lib s = None) \<longrightarrow>
      isl (todo_task lib luid todo))"
proof (intro conjI impI)
  assume ok: "todo_task lib luid todo = Inr t"
  from ok obtain pc pr where
    pc: "py_int lib (get todo ''PERCENT-COMPLETE'' (vInt 0)) = Inr pc" and
    pr: "py_int lib (get todo ''PRIORITY'' (vInt 0)) = Inr pr" and
    t: "percent_complete t = pc" "priority t = pr"
    by (elim todo_task_Inr) simp
  from py_int_get [OF pr] t
  show "todo ''PRIORITY'' = None \<Longrightarrow> priority t = 0"
    and "\<forall>n. todo ''PRIORITY'' = Some (vInt n) \<longrightarrow> priority t = n"
    and "\<forall>s. todo ''PRIORITY'' = Some (vText s) \<longrightarrow> int_of_str lib s = Some (priority t)"
    by simp_all
  from py_int_get [OF pc] t
  show "todo ''PERCENT-COMPLETE'' = None \<Longrightarrow> percent_complete t = 0"
    and "\<forall>n. todo ''PERCENT-COMPLETE'' = Some (vInt n) \<longrightarrow> percent_complete t = n"
    and "\<forall>s. todo ''PERCENT-COMPLETE'' = Some (vText s) \<longrightarrow>
           int_of_str lib s = Some (percent_complete t)"
    by simp_all
next
  assume "\<exists>s. (todo ''PRIORITY'' = Some (vText s) \<or> todo ''PERCENT-COMPLETE'' = Some (vText s)) \<and>
      int_of_str lib s = None"
  then obtain s where s: "int_of_str lib s = None"
    and k: "todo ''PRIORITY'' = Some (vText s) \<or> todo ''PERCENT-COMPLETE'' = Some (vText s)"
    by blast
  from k show "isl (todo_task lib luid todo)"
  proof
    assume "todo ''PRIORITY'' = Some (vText s)"
    then show ?thesis
      using py_int_get_raises [OF _ s] todo_task_raises_priority by fastforce
  next
    assume "todo ''PERCENT-COMPLETE'' = Some (vText s)"
    then show ?thesis
      using py_int_get_raises [OF _ s] todo_task_raises_percent by fastforce
  qed
qed

text \<open>The theorem of C1 at a component with priority 7, and at one with the priority \<^verbatim>\<open>high\<close>.\<close>

theorem numeric_fields_as_converted_witness:
  "\<not> isl (todo_task (sample_lib None) ''l1'' [''PRIORITY'' \<mapsto> vInt 7]) \<and>
   priority (projr (todo_task (sample_lib None) ''l1'' [''PRIORITY'' \<mapsto> vInt 7])) = 7 \<and>
   percent_complete (projr (todo_task (sample_lib None) ''l1'' [''PRIORITY'' \<mapsto> vInt 7])) = 0 \<and>
   [''PRIORITY'' \<mapsto> vText ''high''] ''PRIORITY'' = Some (vText ''high'') \<and>
   int_of_str (sample_lib None) ''high'' = None \<and>
   isl (todo_task (sample_lib None) ''l1'' [''PRIORITY'' \<mapsto> vText ''high''])"
  using numeric_fields_as_converted
          [of "sample_lib None" "''l1''" "[''PRIORITY'' \<mapsto> vInt 7]"
              "projr (todo_task (sample_lib None) ''l1'' [''PRIORITY'' \<mapsto> vInt 7])"]
        numeric_fields_as_converted
          [of "sample_lib None" "''l1''" "[''PRIORITY'' \<mapsto> vText ''high'']"]
  by (simp add: import_defs)

text \<open>
  Against C1 as stated (the two fields are always non-negative): a task with
  \<^verbatim>\<open>PRIORITY:-1\<close> converts without an exception to the priority \<open>-1\<close>, and importing a
  calendar with just that task succeeds and stores the priority \<open>-1\<close>.
\<close>

theorem negative_priority_counterexample:
  "\<not> isl (todo_task (sample_lib None) ''list-1''
            [''SUMMARY'' \<mapsto> vText ''Call'', ''PRIORITY'' \<mapsto> vInt (- 1)]) \<and>
   priority (projr (todo_task (sample_lib None) ''list-1''
            [''SUMMARY'' \<mapsto> vText ''Call'', ''PRIORITY'' \<mapsto> vInt (- 1)])) = - 1 \<and>
   fst (confirm
         (sample_lib (Some \<lparr> x_wr_calname = Some ''Home'',
                             vtodos = [[''SUMMARY'' \<mapsto> vText ''Call'', ''PRIORITY'' \<mapsto> vInt (- 1)]] \<rparr>))
         (Some \<lparr> basename = ''home.ics'', contents = ''BEGIN:VCALENDAR'' \<rparr>)
         (sample_world [] None [])) = None \<and>
   map priority (db_tasks (snd (confirm
         (sample_lib (Some \<lparr> x_wr_calname = Some ''Home'',
                             vtodos = [[''SUMMARY'' \<mapsto> vText ''Call'', ''PRIORITY'' \<mapsto> vInt (- 1)]] \<rparr>))
         (Some \<lparr> basename = ''home.ics'', contents = ''BEGIN:VCALENDAR'' \<rparr>)
         (sample_world [] None [])))) = [- 1]"
  by (simp add: import_defs)

subsection \<open>Parent references\<close>

text \<open>
  Claim C2, as the code has it. The callback rewrites no reference: a task's \<open>parent\<close> is
  the text of its own \<^verbatim>\<open>RELATED-TO\<close>, whether or not a component of the document has that
  identifier. When the import succeeds, the component at position \<open>i\<close> with a non-empty
  \<^verbatim>\<open>UID\<close> \<open>u\<close> is stored under \<open>u\<close> itself, and the component at position \<open>j\<close> with the
  \<^verbatim>\<open>RELATED-TO\<close> \<open>r\<close> is stored with the parent \<open>r\<close>, whatever the order of \<open>i\<close> and \<open>j\<close>.
  So for \<open>r = u\<close> the child's parent is the identifier its parent task is stored under.
\<close>

theorem related_to_passed_through:
  assumes "from_ical lib (contents file) = Some cal"
    and "confirm lib (Some file) w = (None, w')"
    and "i < length (vtodos cal)" and "j < length (vtodos cal)"
    and "(vtodos cal ! i) ''UID'' = Some (vText u)" and "u \<noteq> []"
    and "(vtodos cal ! j) ''RELATED-TO'' = Some (vText r)"
  shows "length (db_tasks w') = length (db_tasks w) + length (vtodos cal) \<and>
         uid (db_tasks w' ! (length (db_tasks w) + i)) = vText u \<and>
         parent (db_tasks w' ! (length (db_tasks w) + j)) = r"
proof -
  from assms(1) obtain nm w1 x w2 where
    un: "unique_name (list_name cal file) w = (nm, w1)" and
    al: "add_list nm w1 = (x, w2)" and
    c: "confirm lib (Some file) w =
       (case x of
          Inl e \<Rightarrow> (Some e, w2)
        | Inr luid \<Rightarrow>
            (case add_todos lib luid (vtodos cal) w2 of
               (Some e, w3) \<Rightarrow> (Some e, w3)
             | (None, w3) \<Rightarrow> (None, finish w3)))"
    by (rule confirm_parsed)
  from c assms(2) obtain luid where x: "x = Inr luid"
    by (cases x) simp_all
  obtain r3 w3 where at: "add_todos lib luid (vtodos cal) w2 = (r3, w3)"
    by (cases "add_todos lib luid (vtodos cal) w2")
  from c assms(2) x at have r3: "r3 = None" and w': "w' = finish w3"
    by (cases r3; simp)+
  from add_todos_rows [of lib luid "vtodos cal" w2 w3] at r3 obtain rows where
    rows: "db_tasks w3 = db_tasks w2 @ rows" and
    rel: "list_all2 (\<lambda>todo row. \<exists>t. todo_task lib luid todo = Inr t \<and> row\<lparr>uid := uid t\<rparr> = t \<and>
                     (uid t \<noteq> PyNone \<longrightarrow> uid t \<noteq> vText [] \<longrightarrow> row = t)) (vtodos cal) rows"
    by blast
  have base: "db_tasks w2 = db_tasks w"
    using unique_name_keeps [OF un] add_list_Inr [of nm w1 luid w2] al x by simp
  have all: "db_tasks w' = db_tasks w @ rows"
    using rows base w' by (simp add: finish_def)
  have len: "length rows = length (vtodos cal)"
    using rel by (simp add: list_all2_lengthD)
  from list_all2_nthD [OF rel assms(3)] obtain ti where
    ti: "todo_task lib luid (vtodos cal ! i) = Inr ti"
      "uid ti \<noteq> PyNone \<longrightarrow> uid ti \<noteq> vText [] \<longrightarrow> rows ! i = ti"
    by blast
  from ti(1) have "uid ti = get (vtodos cal ! i) ''UID'' PyNone"
    by (elim todo_task_Inr) simp
  with assms(5) have "uid ti = vText u" by (simp add: get_def)
  with ti(2) assms(6) have ui: "uid (rows ! i) = vText u" by simp
  from list_all2_nthD [OF rel assms(4)] obtain tj where
    tj: "todo_task lib luid (vtodos cal ! j) = Inr tj" "(rows ! j)\<lparr>uid := uid tj\<rparr> = tj"
    by blast
  from tj(1) have "parent tj = py_str lib (get (vtodos cal ! j) ''RELATED-TO'' (vText []))"
    by (elim todo_task_Inr) simp
  with assms(7) have "parent tj = r" by (simp add: get_def py_str_def)
  moreover from tj(2) have "parent (rows ! j) = parent tj"
    by (rule parent_of_row)
  ultimately have pj: "parent (rows ! j) = r" by simp
  show ?thesis
    using all len ui pj assms(3,4) by (simp add: nth_append)
qed

text \<open>
  The theorem of C2 at a document whose child comes first, whose parent comes second and
  whose third task refers to an identifier outside the document.
\<close>

theorem related_to_passed_through_witness:
  "fst (confirm
         (sample_lib (Some \<lparr> x_wr_calname = Some ''Home'',
                             vtodos = [[''UID'' \<mapsto> vText ''c1'', ''RELATED-TO'' \<mapsto> vText ''a1''],
                                       [''UID'' \<mapsto> vText ''a1''],
                                       [''RELATED-TO'' \<mapsto> vText ''gone'']] \<rparr>))
         (Some \<lparr> basename = ''home.ics'', contents = ''BEGIN:VCALENDAR'' \<rparr>)
         (sample_world [] None [''list-1'', ''task-1''])) = None \<and>
   map uid (db_tasks (snd (confirm
         (sample_lib (Some \<lparr> x_wr_calname = Some ''Home'',
                             vtodos = [[''UID'' \<mapsto> vText ''c1'', ''RELATED-TO'' \<mapsto> vText ''a1''],
                                       [''UID'' \<mapsto> vText ''a1''],
                                       [''RELATED-TO'' \<mapsto> vText ''gone'']] \<rparr>))
         (Some \<lparr> basename = ''home.ics'', contents = ''BEGIN:VCALENDAR'' \<rparr>)
         (sample_world [] None [''list-1'', ''task-1''])))) =
     [vText ''c1'', vText ''a1'', vText ''task-1''] \<and>
   map parent (db_tasks (snd (confirm
         (sample_lib (Some \<lparr> x_wr_calname = Some ''Home'',
                             vtodos = [[''UID'' \<mapsto> vText ''c1'', ''RELATED-TO'' \<mapsto> vText ''a1''],
                                       [''UID'' \<mapsto> vText ''a1''],
                                       [''RELATED-TO'' \<mapsto> vText ''gone'']] \<rparr>))
         (Some \<lparr> basename = ''home.ics'', contents = ''BEGIN:VCALENDAR'' \<rparr>)
         (sample_world [] None [''list-1'', ''task-1''])))) =
     [''a1'', '''', ''gone'']"
  using related_to_passed_through
          [of "sample_lib (Some \<lparr> x_wr_calname = Some ''Home'',
                             vtodos = [[''UID'' \<mapsto> vText ''c1'', ''RELATED-TO'' \<mapsto> vText ''a1''],
                                       [''UID'' \<mapsto> vText ''a1''],
                                       [''RELATED-TO'' \<mapsto> vText ''gone'']] \<rparr>)"
              "\<lparr> basename = ''home.ics'', contents = ''BEGIN:VCALENDAR'' \<rparr>"
              "\<lparr> x_wr_calname = Some ''Home'',
                             vtodos = [[''UID'' \<mapsto> vText ''c1'', ''RELATED-TO'' \<mapsto> vText ''a1''],
                                       [''UID'' \<mapsto> vText ''a1''],
                                       [''RELATED-TO'' \<mapsto> vText ''gone'']] \<rparr>"
              "sample_world [] None [''list-1'', ''task-1'']"
              "snd (confirm
         (sample_lib (Some \<lparr> x_wr_calname = Some ''Home'',
                             vtodos = [[''UID'' \<mapsto> vText ''c1'', ''RELATED-TO'' \<mapsto> vText ''a1''],
                                       [''UID'' \<mapsto> vText ''a1''],
                                       [''RELATED-TO'' \<mapsto> vText ''gone'']] \<rparr>))
         (Some \<lparr> basename = ''home.ics'', contents = ''BEGIN:VCALENDAR'' \<rparr>)
         (sample_world [] None [''list-1'', ''task-1'']))"
              "Suc 0" 0 "''a1''" "''a1''"]
        related_to_passed_through
          [of "sample_lib (Some \<lparr> x_wr_calname = Some ''Home'',
                             vtodos = [[''UID'' \<mapsto> vText ''c1'', ''RELATED-TO'' \<mapsto> vText ''a1''],
                                       [''UID'' \<mapsto> vText ''a1''],
                                       [''RELATED-TO'' \<mapsto> vText ''gone'']] \<rparr>)"
              "\<lparr> basename = ''home.ics'', contents = ''BEGIN:VCALENDAR'' \<rparr>"
              "\<lparr> x_wr_calname = Some ''Home'',
                             vtodos = [[''UID'' \<mapsto> vText ''c1'', ''RELATED-TO'' \<mapsto> vText ''a1''],
                                       [''UID'' \<mapsto> vText ''a1''],
                                       [''RELATED-TO'' \<mapsto> vText ''gone'']] \<rparr>"
              "sample_world [] None [''list-1'', ''task-1'']"
              "snd (confirm
         (sample_lib (Some \<lparr> x_wr_calname = Some ''Home'',
                             vtodos = [[''UID'' \<mapsto> vText ''c1'', ''RELATED-TO'' \<mapsto> vText ''a1''],
                                       [''UID'' \<mapsto> vText ''a1''],
                                       [''RELATED-TO'' \<mapsto> vText ''gone'']] \<rparr>))
         (Some \<lparr> basename = ''home.ics'', contents = ''BEGIN:VCALENDAR'' \<rparr>)
         (sample_world [] None [''list-1'', ''task-1'']))"
              "Suc 0" "Suc (Suc 0)" "''a1''" "''gone''"]
  by (simp add: import_defs)

text \<open>
  Against C2 as stated (the reference is mapped to the persisted identifier): the second
  task has an empty \<^verbatim>\<open>UID\<close> and is stored under the generated \<^verbatim>\<open>task-1\<close>; the first task's
  \<^verbatim>\<open>RELATED-TO\<close> is the same empty text and stays empty.
\<close>

theorem empty_uid_counterexample:
  "fst (confirm
         (sample_lib (Some \<lparr> x_wr_calname = Some ''Home'',
                             vtodos = [[''UID'' \<mapsto> vText ''b'', ''RELATED-TO'' \<mapsto> vText ''''],
                                       [''UID'' \<mapsto> vText '''']] \<rparr>))
         (Some \<lparr> basename = ''home.ics'', contents = ''BEGIN:VCALENDAR'' \<rparr>)
         (sample_world [] None [''list-1'', ''task-1''])) = None \<and>
   map parent (db_tasks (snd (confirm
         (sample_lib (Some \<lparr> x_wr_calname = Some ''Home'',
                             vtodos = [[''UID'' \<mapsto> vText ''b'', ''RELATED-TO'' \<mapsto> vText ''''],
                                       [''UID'' \<mapsto> vText '''']] \<rparr>))
         (Some \<lparr> basename = ''home.ics'', contents = ''BEGIN:VCALENDAR'' \<rparr>)
         (sample_world [] None [''list-1'', ''task-1''])))) = ['''', ''''] \<and>
   map uid (db_tasks (snd (confirm
         (sample_lib (Some \<lparr> x_wr_calname = Some ''Home'',
                             vtodos = [[''UID'' \<mapsto> vText ''b'', ''RELATED-TO'' \<mapsto> vText ''''],
                                       [''UID'' \<mapsto> vText '''']] \<rparr>))
         (Some \<lparr> basename = ''home.ics'', contents = ''BEGIN:VCALENDAR'' \<rparr>)
         (sample_world [] None [''list-1'', ''task-1''])))) = [vText ''b'', vText ''task-1'']"
  by (simp add: import_defs)

subsection \<open>Name collisions\<close>

text \<open>
  Claim C3, as the code has it. A name that no list has is kept. A name that a list has
  becomes the name, an underscore and one new identifier, which differs from the name;
  it is outside the existing names whenever no list already has that very text, and the
  code neither checks this nor tries again.
\<close>

theorem unique_name_cases:
  "(nm \<notin> set (select_name_from_lists w) \<longrightarrow> fst (unique_name nm w) = nm) \<and>
   (nm \<in> set (select_name_from_lists w) \<longrightarrow>
      fst (unique_name nm w) = nm @ ''_'' @ fst (uuid4 w) \<and>
      fst (unique_name nm w) \<noteq> nm \<and>
      (nm @ ''_'' @ fst (uuid4 w) \<notin> set (select_name_from_lists w) \<longrightarrow>
         fst (unique_name nm w) \<notin> set (select_name_from_lists w)) \<and>
      (set (select_name_from_lists w) = {nm} \<longrightarrow>
         fst (unique_name nm w) \<notin> set (select_name_from_lists w)))"
  by (simp add: unique_name_def uuid4_def)

text \<open>The theorem of C3 at a free name and at a taken one.\<close>

theorem unique_name_cases_witness:
  "''Work'' \<notin> set (select_name_from_lists
      (sample_world [\<lparr> l_uid = ''1'', l_name = ''Groceries'', l_deleted = False \<rparr>] None [''u7''])) \<and>
   fst (unique_name ''Work''
      (sample_world [\<lparr> l_uid = ''1'', l_name = ''Groceries'', l_deleted = False \<rparr>] None [''u7''])) =
     ''Work'' \<and>
   ''Groceries'' \<in> set (select_name_from_lists
      (sample_world [\<lparr> l_uid = ''1'', l_name = ''Groceries'', l_deleted = False \<rparr>] None [''u7''])) \<and>
   fst (unique_name ''Groceries''
      (sample_world [\<lparr> l_uid = ''1'', l_name = ''Groceries'', l_deleted = False \<rparr>] None [''u7''])) =
     ''Groceries_u7'' \<and>
   ''Groceries_u7'' \<notin> set (select_name_from_lists
      (sample_world [\<lparr> l_uid = ''1'', l_name = ''Groceries'', l_deleted = False \<rparr>] None [''u7'']))"
  using unique_name_cases
          [of "''Work''"
              "sample_world [\<lparr> l_uid = ''1'', l_name = ''Groceries'', l_deleted = False \<rparr>] None [''u7'']"]
        unique_name_cases
          [of "''Groceries''"
              "sample_world [\<lparr> l_uid = ''1'', l_name = ''Groceries'', l_deleted = False \<rparr>] None [''u7'']"]
  by (simp add: import_defs)

text \<open>
  Against C3 as stated (the resolved name is never an existing name): a list already has
  the name that the suffix produces.
\<close>

theorem suffixed_name_taken_counterexample:
  "fst (unique_name ''Groceries''
         (sample_world
            [\<lparr> l_uid = ''1'', l_name = ''Groceries'', l_deleted = False \<rparr>,
             \<lparr> l_uid = ''2'', l_name = ''Groceries_123e4567-e89b-42d3-a456-426614174000'',
               l_deleted = False \<rparr>]
            None [''123e4567-e89b-42d3-a456-426614174000'']))
   \<in> set (select_name_from_lists
         (sample_world
            [\<lparr> l_uid = ''1'', l_name = ''Groceries'', l_deleted = False \<rparr>,
             \<lparr> l_uid = ''2'', l_name = ''Groceries_123e4567-e89b-42d3-a456-426614174000'',
               l_deleted = False \<rparr>]
            None [''123e4567-e89b-42d3-a456-426614174000'']))"
  by (simp add: import_defs)

subsection \<open>The candidate list name\<close>

text \<open>
  Claim C4 at the claim's own example. \<^verbatim>\<open>rstrip(".ics")\<close> removes trailing characters
  among \<^verbatim>\<open>.\<close>, \<^verbatim>\<open>i\<close>, \<^verbatim>\<open>c\<close> and \<^verbatim>\<open>s\<close>, not the suffix \<^verbatim>\<open>.ics\<close>: a calendar without
  \<^verbatim>\<open>X-WR-CALNAME\<close> in the file \<^verbatim>\<open>basics.ics\<close> gets the list name \<^verbatim>\<open>ba\<close>, and the list is
  created under that name.
\<close>

theorem basics_ics_named_ba:
  "list_name \<lparr> x_wr_calname = None, vtodos = [] \<rparr>
             \<lparr> basename = ''basics.ics'', contents = ''BEGIN:VCALENDAR'' \<rparr> = ''ba'' \<and>
   map l_name (db_lists (snd (confirm
         (sample_lib (Some \<lparr> x_wr_calname = None, vtodos = [] \<rparr>))
         (Some \<lparr> basename = ''basics.ics'', contents = ''BEGIN:VCALENDAR'' \<rparr>)
         (sample_world [] None [''list-1'']))))
     = [''ba'']"
  by (simp add: import_defs)

subsection \<open>Failures and what stays\<close>



subsection \<open>Completion\<close>

text \<open>
  Claim C6. For every component, the task is completed exactly when the text of its
  \<^verbatim>\<open>STATUS\<close> is \<^verbatim>\<open>COMPLETED\<close>, compared character by character; without a \<^verbatim>\<open>STATUS\<close> the
  task is not completed.
\<close>

theorem completed_iff_status:
  assumes "todo_task lib luid todo = Inr t"
  shows "(todo ''STATUS'' = None \<longrightarrow> \<not> completed t) \<and>
         (\<forall>s. todo ''STATUS'' = Some (vText s) \<longrightarrow> completed t = (s = ''COMPLETED''))"
proof -
  from assms have "completed t = (py_str lib (get todo ''STATUS'' (vText [])) = ''COMPLETED'')"
    by (elim todo_task_Inr) simp
  then show ?thesis by (auto simp: get_def py_str_def)
qed

text \<open>The theorem of C6 at \<^verbatim>\<open>COMPLETED\<close>, \<^verbatim>\<open>Completed\<close>, \<^verbatim>\<open>NEEDS-ACTION\<close> and no status.\<close>

theorem completed_iff_status_witness:
  "\<not> isl (todo_task (sample_lib None) ''l1'' [''STATUS'' \<mapsto> vText ''COMPLETED'']) \<and>
   completed (projr (todo_task (sample_lib None) ''l1'' [''STATUS'' \<mapsto> vText ''COMPLETED''])) \<and>
   \<not> completed (projr (todo_task (sample_lib None) ''l1'' [''STATUS'' \<mapsto> vText ''Completed''])) \<and>
   \<not> completed (projr (todo_task (sample_lib None) ''l1'' [''STATUS'' \<mapsto> vText ''NEEDS-ACTION''])) \<and>
   \<not> completed (projr (todo_task (sample_lib None) ''l1'' [''SUMMARY'' \<mapsto> vText ''Call'']))"
  using completed_iff_status
          [of "sample_lib None" "''l1''" "[''STATUS'' \<mapsto> vText ''COMPLETED'']"
              "projr (todo_task (sample_lib None) ''l1'' [''STATUS'' \<mapsto> vText ''COMPLETED''])"]
        completed_iff_status
          [of "sample_lib None" "''l1''" "[''STATUS'' \<mapsto> vText ''Completed'']"
              "projr (todo_task (sample_lib None) ''l1'' [''STATUS'' \<mapsto> vText ''Completed''])"]
        completed_iff_status
          [of "sample_lib None" "''l1''" "[''STATUS'' \<mapsto> vText ''NEEDS-ACTION'']"
              "projr (todo_task (sample_lib None) ''l1'' [''STATUS'' \<mapsto> vText ''NEEDS-ACTION''])"]
        completed_iff_status
          [of "sample_lib None" "''l1''" "[''SUMMARY'' \<mapsto> vText ''Call'']"
              "projr (todo_task (sample_lib None) ''l1'' [''SUMMARY'' \<mapsto> vText ''Call''])"]
  by (simp add: import_defs)

subsection \<open>Dates\<close>

text \<open>
  Claim C7. For every component, \<open>start_date\<close> is empty without a \<^verbatim>\<open>DTSTART\<close>, and for a
  date value it is the library's rendering stripped of \<^verbatim>\<open>Z\<close>: when the rendering does
  not begin with \<^verbatim>\<open>Z\<close> (a date never does), the rendering without its trailing \<^verbatim>\<open>Z\<close>s. \<open>end_date\<close> is
  the same of \<^verbatim>\<open>DUE\<close> when there is one, whatever \<^verbatim>\<open>DTEND\<close> holds, of \<^verbatim>\<open>DTEND\<close> when there
  is no \<^verbatim>\<open>DUE\<close>, and empty without both.
\<close>

theorem dates_rendered_without_Z:
  assumes "todo_task lib luid todo = Inr t"
  shows "(todo ''DTSTART'' = None \<longrightarrow> start_date t = []) \<and>
         (\<forall>r. todo ''DTSTART'' = Some (vDDDTypes r) \<longrightarrow>
              start_date t = strip ''Z'' r \<and>
              (take 1 r \<noteq> ''Z'' \<longrightarrow>
                 start_date t = rev (dropWhile (\<lambda>c. c = CHR ''Z'') (rev r)))) \<and>
         (todo ''DUE'' = None \<and> todo ''DTEND'' = None \<longrightarrow> end_date t = []) \<and>
         (\<forall>r. todo ''DUE'' = Some (vDDDTypes r) \<or>
              todo ''DUE'' = None \<and> todo ''DTEND'' = Some (vDDDTypes r) \<longrightarrow>
              end_date t = strip ''Z'' r \<and>
              (take 1 r \<noteq> ''Z'' \<longrightarrow>
                 end_date t = rev (dropWhile (\<lambda>c. c = CHR ''Z'') (rev r))))"
proof -
  from assms have s: "todo_start lib todo = Inr (start_date t)"
    and e: "todo_end lib todo = Inr (end_date t)"
    by (elim todo_task_Inr, simp)+
  have "todo ''DTSTART'' = None \<longrightarrow> start_date t = []"
    using s by (auto simp: todo_start_def get_def ical_date_simps)
  moreover have "\<forall>r. todo ''DTSTART'' = Some (vDDDTypes r) \<longrightarrow>
              start_date t = strip ''Z'' r \<and>
              (take 1 r \<noteq> ''Z'' \<longrightarrow>
                 start_date t = rev (dropWhile (\<lambda>c. c = CHR ''Z'') (rev r)))"
    using s strip_Z_trailing by (auto simp: todo_start_def get_def ical_date_simps)
  moreover have "todo ''DUE'' = None \<and> todo ''DTEND'' = None \<longrightarrow> end_date t = []"
    using e by (auto simp: todo_end_def get_def ical_date_simps)
  moreover have "\<forall>r. todo ''DUE'' = Some (vDDDTypes r) \<or>
              todo ''DUE'' = None \<and> todo ''DTEND'' = Some (vDDDTypes r) \<longrightarrow>
              end_date t = strip ''Z'' r \<and>
              (take 1 r \<noteq> ''Z'' \<longrightarrow>
                 end_date t = rev (dropWhile (\<lambda>c. c = CHR ''Z'') (rev r)))"
    using e strip_Z_trailing by (auto simp: todo_end_def get_def ical_date_simps)
  ultimately show ?thesis by blast
qed

text \<open>
  The theorem of C7 at a component with all three dates, at one with \<^verbatim>\<open>DTEND\<close> only and
  at one without dates.
\<close>

theorem dates_rendered_without_Z_witness:
  "\<not> isl (todo_task (sample_lib None) ''l1''
            [''DTSTART'' \<mapsto> vDDDTypes ''20231012T120000Z'',
             ''DUE'' \<mapsto> vDDDTypes ''20231101'',
             ''DTEND'' \<mapsto> vDDDTypes ''20231225T090000Z'']) \<and>
   start_date (projr (todo_task (sample_lib None) ''l1''
            [''DTSTART'' \<mapsto> vDDDTypes ''20231012T120000Z'',
             ''DUE'' \<mapsto> vDDDTypes ''20231101'',
             ''DTEND'' \<mapsto> vDDDTypes ''20231225T090000Z''])) = ''20231012T120000'' \<and>
   end_date (projr (todo_task (sample_lib None) ''l1''
            [''DTSTART'' \<mapsto> vDDDTypes ''20231012T120000Z'',
             ''DUE'' \<mapsto> vDDDTypes ''20231101'',
             ''DTEND'' \<mapsto> vDDDTypes ''20231225T090000Z''])) = ''20231101'' \<and>
   start_date (projr (todo_task (sample_lib None) ''l1''
            [''DTEND'' \<mapsto> vDDDTypes ''20231225T090000Z''])) = '''' \<and>
   end_date (projr (todo_task (sample_lib None) ''l1''
            [''DTEND'' \<mapsto> vDDDTypes ''20231225T090000Z''])) = ''20231225T090000'' \<and>
   end_date (projr (todo_task (sample_lib None) ''l1'' [''SUMMARY'' \<mapsto> vText ''Call''])) = ''''"
  using dates_rendered_without_Z
          [of "sample_lib None" "''l1''"
              "[''DTSTART'' \<mapsto> vDDDTypes ''20231012T120000Z'',
                ''DUE'' \<mapsto> vDDDTypes ''20231101'',
                ''DTEND'' \<mapsto> vDDDTypes ''20231225T090000Z'']"
              "projr (todo_task (sample_lib None) ''l1''
                 [''DTSTART'' \<mapsto> vDDDTypes ''20231012T120000Z'',
                  ''DUE'' \<mapsto> vDDDTypes ''20231101'',
                  ''DTEND'' \<mapsto> vDDDTypes ''20231225T090000Z''])"]
        dates_rendered_without_Z
          [of "sample_lib None" "''l1''" "[''DTEND'' \<mapsto> vDDDTypes ''20231225T090000Z'']"
              "projr (todo_task (sample_lib None) ''l1''
                 [''DTEND'' \<mapsto> vDDDTypes ''20231225T090000Z''])"]
        dates_rendered_without_Z
          [of "sample_lib None" "''l1''" "[''SUMMARY'' \<mapsto> vText ''Call'']"
              "projr (todo_task (sample_lib None) ''l1'' [''SUMMARY'' \<mapsto> vText ''Call''])"]
  by (simp add: import_defs)

subsection \<open>Tags\<close>

text \<open>
  Claim C8, as the code has it. For every component the tags are one text, not a
  sequence: the empty text without \<^verbatim>\<open>CATEGORIES\<close>; for a category value the join by
  commas, in their order, of the library's renderings of its texts; for several
  \<^verbatim>\<open>CATEGORIES\<close> lines the join of their joins; and a single value gives what the list
  holding just that value gives. The rendering escapes the backslash, the semicolon,
  the comma and the line feed, so when no text of the value has one of these the tags
  are the join of the category texts themselves. These tags are what the task gets.
\<close>

theorem tags_are_joined_renderings:
  "(todo ''CATEGORIES'' = None \<longrightarrow> todo_tags lib todo = Inr []) \<and>
   (\<forall>cs. todo ''CATEGORIES'' = Some (vCategory cs) \<longrightarrow>
      todo_tags lib todo = Inr (join '','' (map (vtext_to_ical lib) cs))) \<and>
   (\<forall>css. todo ''CATEGORIES'' = Some (PyList (map vCategory css)) \<longrightarrow>
      todo_tags lib todo =
        Inr (join '','' (map (\<lambda>cs. join '','' (map (vtext_to_ical lib) cs)) css))) \<and>
   todo_tags lib (todo(''CATEGORIES'' \<mapsto> vCategory cs0)) =
     todo_tags lib (todo(''CATEGORIES'' \<mapsto> PyList [vCategory cs0])) \<and>
   (\<forall>cs. todo ''CATEGORIES'' = Some (vCategory cs) \<and> vtext_to_ical lib = escape_char \<and>
      (\<forall>c \<in> set cs. CHR 0x5C \<notin> set c \<and> CHR '';'' \<notin> set c \<and> CHR '','' \<notin> set c \<and>
                     CHR 0x0A \<notin> set c) \<longrightarrow>
      todo_tags lib todo = Inr (join '','' cs)) \<and>
   (todo_task lib luid todo = Inr t \<longrightarrow> todo_tags lib todo = Inr (tags t))"
proof (intro conjI allI impI)
  show "todo ''CATEGORIES'' = None \<Longrightarrow> todo_tags lib todo = Inr []"
    by (simp add: todo_tags_simps)
  show "todo ''CATEGORIES'' = Some (vCategory cs) \<Longrightarrow>
      todo_tags lib todo = Inr (join '','' (map (vtext_to_ical lib) cs))" for cs
    by (simp add: todo_tags_simps)
  show "todo ''CATEGORIES'' = Some (PyList (map vCategory css)) \<Longrightarrow>
      todo_tags lib todo =
        Inr (join '','' (map (\<lambda>cs. join '','' (map (vtext_to_ical lib) cs)) css))" for css
    by (simp add: todo_tags_simps)
  show "todo_tags lib (todo(''CATEGORIES'' \<mapsto> vCategory cs0)) =
     todo_tags lib (todo(''CATEGORIES'' \<mapsto> PyList [vCategory cs0]))"
    using todo_tags_simps(3) [of "todo(''CATEGORIES'' \<mapsto> PyList [vCategory cs0])" "[cs0]" lib]
    by (simp add: todo_tags_simps(2))
  show "todo_tags lib todo = Inr (join '','' cs)"
    if h: "todo ''CATEGORIES'' = Some (vCategory cs) \<and> vtext_to_ical lib = escape_char \<and>
      (\<forall>c \<in> set cs. CHR 0x5C \<notin> set c \<and> CHR '';'' \<notin> set c \<and> CHR '','' \<notin> set c \<and>
                     CHR 0x0A \<notin> set c)" for cs
  proof -
    from h have "map (vtext_to_ical lib) cs = cs"
      by (simp add: map_idI escape_char_plain)
    with h show ?thesis by (simp add: todo_tags_simps(2))
  qed
  show "todo_task lib luid todo = Inr t \<Longrightarrow> todo_tags lib todo = Inr (tags t)"
    by (elim todo_task_Inr) simp
qed

text \<open>
  The theorem of C8 with the library's escaping: at a component without categories, at
  \<^verbatim>\<open>CATEGORIES:work,urgent\<close>, whose tags are the text \<^verbatim>\<open>work,urgent\<close>, and at a component
  with two \<^verbatim>\<open>CATEGORIES\<close> lines.
\<close>

theorem tags_are_joined_renderings_witness:
  "vtext_to_ical (escaping_lib None) = escape_char \<and>
   todo_tags (escaping_lib None)
     [''SUMMARY'' \<mapsto> vText ''Call'', ''CATEGORIES'' \<mapsto> vCategory [''work'', ''urgent'']] =
     Inr ''work,urgent'' \<and>
   todo_tags (escaping_lib None)
     [''CATEGORIES'' \<mapsto> PyList (map vCategory [[''work'', ''urgent''], [''home'']])] =
     Inr ''work,urgent,home'' \<and>
   todo_tags (escaping_lib None) [''SUMMARY'' \<mapsto> vText ''Call''] = Inr '''' \<and>
   tags (projr (todo_task (escaping_lib None) ''l1''
     [''SUMMARY'' \<mapsto> vText ''Call'', ''CATEGORIES'' \<mapsto> vCategory [''work'', ''urgent'']])) =
     ''work,urgent''"
  using tags_are_joined_renderings
          [of "[''SUMMARY'' \<mapsto> vText ''Call'']" "escaping_lib None" "[''work'', ''urgent'']"
              "''l1''"
              "projr (todo_task (escaping_lib None) ''l1'' [''SUMMARY'' \<mapsto> vText ''Call''])"]
        tags_are_joined_renderings
          [of "[''SUMMARY'' \<mapsto> vText ''Call'', ''CATEGORIES'' \<mapsto> vCategory [''work'', ''urgent'']]"
              "escaping_lib None" "[''work'', ''urgent'']" "''l1''"
              "projr (todo_task (escaping_lib None) ''l1''
                 [''SUMMARY'' \<mapsto> vText ''Call'',
                  ''CATEGORIES'' \<mapsto> vCategory [''work'', ''urgent'']])"]
        tags_are_joined_renderings
          [of "[''CATEGORIES'' \<mapsto> PyList (map vCategory [[''work'', ''urgent''], [''home'']])]"
              "escaping_lib None"]
  by (simp add: import_defs escaping_lib_def escape_char_def)

text \<open>
  Against C8 as stated (the category values are joined and give a sequence of tags): the
  category texts \<^verbatim>\<open>a;b\<close> and \<^verbatim>\<open>c\<close>, which the line \<^verbatim>\<open>CATEGORIES:a;b,c\<close> holds, give the one
  text made of \<^verbatim>\<open>a\<close>, a backslash and \<^verbatim>\<open>;b,c\<close>, which is not the join of the two texts, and
  importing a calendar with just that task stores this text as the task's tags.
\<close>

theorem escaped_category_counterexample:
  "todo_tags (escaping_lib None) [''CATEGORIES'' \<mapsto> vCategory [''a;b'', ''c'']] =
     Inr [CHR ''a'', CHR 0x5C, CHR '';'', CHR ''b'', CHR '','', CHR ''c''] \<and>
   todo_tags (escaping_lib None) [''CATEGORIES'' \<mapsto> vCategory [''a;b'', ''c'']] \<noteq>
     Inr (join '','' [''a;b'', ''c'']) \<and>
   fst (confirm
         (escaping_lib (Some \<lparr> x_wr_calname = Some ''Home'',
                               vtodos = [[''CATEGORIES'' \<mapsto> vCategory [''a;b'', ''c'']]] \<rparr>))
         (Some \<lparr> basename = ''home.ics'', contents = ''BEGIN:VCALENDAR'' \<rparr>)
         (sample_world [] None [])) = None \<and>
   map tags (db_tasks (snd (confirm
         (escaping_lib (Some \<lparr> x_wr_calname = Some ''Home'',
                               vtodos = [[''CATEGORIES'' \<mapsto> vCategory [''a;b'', ''c'']]] \<rparr>))
         (Some \<lparr> basename = ''home.ics'', contents = ''BEGIN:VCALENDAR'' \<rparr>)
         (sample_world [] None [])))) =
     [[CHR ''a'', CHR 0x5C, CHR '';'', CHR ''b'', CHR '','', CHR ''c'']]"
  by (simp add: import_defs escaping_lib_def escape_char_def)

subsection \<open>Synchronisation\<close>

text \<open>
  Claim C9. For every file, world and library: a run of the callback that ends without
  an exception has called \<^verbatim>\<open>Sync.sync()\<close> once, and a run that ends with an exception,
  raised by the parser, by the creation of the list or inside the loop over the tasks,
  has not called it.
\<close>

theorem sync_once_on_success_only:
  "(fst (confirm lib (Some file) w) = None \<longrightarrow>
      syncs (snd (confirm lib (Some file) w)) = Suc (syncs w)) \<and>
   (fst (confirm lib (Some file) w) \<noteq> None \<longrightarrow>
      syncs (snd (confirm lib (Some file) w)) = syncs w)"
proof (cases "from_ical lib (contents file)")
  case None
  then show ?thesis by (simp add: confirm_def)
next
  case (Some cal)
  then obtain nm w1 x w2 where
    un: "unique_name (list_name cal file) w = (nm, w1)" and
    al: "add_list nm w1 = (x, w2)" and
    c: "confirm lib (Some file) w =
       (case x of
          Inl e \<Rightarrow> (Some e, w2)
        | Inr luid \<Rightarrow>
            (case add_todos lib luid (vtodos cal) w2 of
               (Some e, w3) \<Rightarrow> (Some e, w3)
             | (None, w3) \<Rightarrow> (None, finish w3)))"
    by (rule confirm_parsed)
  show ?thesis
  proof (cases x)
    case (Inl e)
    with c al add_list_Inl [of nm w1 e w2] unique_name_keeps [OF un] show ?thesis by simp
  next
    case (Inr luid)
    obtain r3 w3 where at: "add_todos lib luid (vtodos cal) w2 = (r3, w3)"
      by (cases "add_todos lib luid (vtodos cal) w2")
    from add_todos_keeps [OF at] add_list_Inr [of nm w1 luid w2] al Inr unique_name_keeps [OF un]
    have s3: "syncs w3 = syncs w" by simp
    show ?thesis
      using c Inr at s3 by (cases r3) (simp_all add: finish_def)
  qed
qed

text \<open>
  The theorem of C9 at a successful import, at a document that does not parse, at a store
  that refuses the list and at a store that refuses the first task.
\<close>

theorem sync_once_on_success_only_witness:
  "fst (confirm
         (sample_lib (Some \<lparr> x_wr_calname = Some ''Home'',
                             vtodos = [[''SUMMARY'' \<mapsto> vText ''first'']] \<rparr>))
         (Some \<lparr> basename = ''home.ics'', contents = ''BEGIN:VCALENDAR'' \<rparr>)
         (sample_world [] None [])) = None \<and>
   syncs (snd (confirm
         (sample_lib (Some \<lparr> x_wr_calname = Some ''Home'',
                             vtodos = [[''SUMMARY'' \<mapsto> vText ''first'']] \<rparr>))
         (Some \<lparr> basename = ''home.ics'', contents = ''BEGIN:VCALENDAR'' \<rparr>)
         (sample_world [] None []))) = 1 \<and>
   fst (confirm (sample_lib None)
         (Some \<lparr> basename = ''home.ics'', contents = ''BEGIN:VTODO'' \<rparr>)
         (sample_world [] None [])) = Some ParseError \<and>
   syncs (snd (confirm (sample_lib None)
         (Some \<lparr> basename = ''home.ics'', contents = ''BEGIN:VTODO'' \<rparr>)
         (sample_world [] None []))) = 0 \<and>
   fst (confirm
         (sample_lib (Some \<lparr> x_wr_calname = Some ''Home'',
                             vtodos = [[''SUMMARY'' \<mapsto> vText ''first'']] \<rparr>))
         (Some \<lparr> basename = ''home.ics'', contents = ''BEGIN:VCALENDAR'' \<rparr>)
         (sample_world [] (Some 0) [])) = Some StoreError \<and>
   syncs (snd (confirm
         (sample_lib (Some \<lparr> x_wr_calname = Some ''Home'',
                             vtodos = [[''SUMMARY'' \<mapsto> vText ''first'']] \<rparr>))
         (Some \<lparr> basename = ''home.ics'', contents = ''BEGIN:VCALENDAR'' \<rparr>)
         (sample_world [] (Some 0) []))) = 0 \<and>
   fst (confirm
         (sample_lib (Some \<lparr> x_wr_calname = Some ''Home'',
                             vtodos = [[''SUMMARY'' \<mapsto> vText ''first'']] \<rparr>))
         (Some \<lparr> basename = ''home.ics'', contents = ''BEGIN:VCALENDAR'' \<rparr>)
         (sample_world [] (Some (Suc 0)) [])) = Some StoreError \<and>
   syncs (snd (confirm
         (sample_lib (Some \<lparr> x_wr_calname = Some ''Home'',
                             vtodos = [[''SUMMARY'' \<mapsto> vText ''first'']] \<rparr>))
         (Some \<lparr> basename = ''home.ics'', contents = ''BEGIN:VCALENDAR'' \<rparr>)
         (sample_world [] (Some (Suc 0)) []))) = 0"
  using sync_once_on_success_only
          [of "sample_lib (Some \<lparr> x_wr_calname = Some ''Home'',
                             vtodos = [[''SUMMARY'' \<mapsto> vText ''first'']] \<rparr>)"
              "\<lparr> basename = ''home.ics'', contents = ''BEGIN:VCALENDAR'' \<rparr>"
              "sample_world [] None []"]
        sync_once_on_success_only
          [of "sample_lib None"
              "\<lparr> basename = ''home.ics'', contents = ''BEGIN:VTODO'' \<rparr>"
              "sample_world [] None []"]
        sync_once_on_success_only
          [of "sample_lib (Some \<lparr> x_wr_calname = Some ''Home'',
                             vtodos = [[''SUMMARY'' \<mapsto> vText ''first'']] \<rparr>)"
              "\<lparr> basename = ''home.ics'', contents = ''BEGIN:VCALENDAR'' \<rparr>"
              "sample_world [] (Some 0) []"]
        sync_once_on_success_only
          [of "sample_lib (Some \<lparr> x_wr_calname = Some ''Home'',
                             vtodos = [[''SUMMARY'' \<mapsto> vText ''first'']] \<rparr>)"
              "\<lparr> basename = ''home.ics'', contents = ''BEGIN:VCALENDAR'' \<rparr>"
              "sample_world [] (Some (Suc 0)) []"]
  by (simp add: import_defs)

subsection \<open>Deleted lists\<close>



end
